theory Spec2Isabelle
  imports Main "HOL-Library.Word"
begin

section \<open>Data model\<close>

text \<open>
  The package wraps Go's \<^verbatim>\<open>crypto/x509\<close>, \<^verbatim>\<open>crypto/rsa\<close>, \<^verbatim>\<open>crypto/rand\<close>,
  \<^verbatim>\<open>encoding/pem\<close> and \<^verbatim>\<open>time\<close>. Byte slices are lists of 8-bit words, \<^verbatim>\<open>big.Int\<close> is
  \<open>int\<close>, a \<^verbatim>\<open>time.Time\<close> is an instant counted in nanoseconds (\<open>int\<close>), a
  \<^verbatim>\<open>time.Duration\<close> is a signed 64-bit count of nanoseconds. A pointer that may be
  \<^verbatim>\<open>nil\<close> is an \<open>option\<close>.
\<close>

type_synonym byte = "8 word"
type_synonym DER = "byte list"
type_synonym PEM = "byte list"
type_synonym Time = int
type_synonym Duration = "64 word"

text \<open>
  Go's \<^verbatim>\<open>error\<close> values: the two constructors used by the package itself, the errors
  handed back by library calls, and the run-time panic of a nil pointer dereference.
\<close>

datatype error =
    errors_New string
  | fmt_Errorf string string
  | library_error string
  | nil_dereference

record rsa_PublicKey =
  rsa_N :: int
  rsa_E :: int

record rsa_PrivateKey =
  rsa_PublicKey_of :: rsa_PublicKey
  rsa_D :: int
  rsa_Primes :: "int list"

record pkix_Name =
  CommonName :: string

text \<open>
  The fields of \<^verbatim>\<open>x509.Certificate\<close> that the package sets in a template, and the
  fields that only a parsed certificate carries (\<open>Raw\<close>, \<open>Issuer\<close>, \<open>Signature\<close>); the latter
  have their zero values in a template.
\<close>

record x509_Certificate =
  Raw :: DER
  Signature :: "byte list"
  SerialNumber :: int
  Issuer :: pkix_Name
  Subject :: pkix_Name
  NotBefore :: Time
  NotAfter :: Time
  KeyUsage :: int
  ExtKeyUsage :: "int list"
  BasicConstraintsValid :: bool
  IsCA :: bool

record pem_Block =
  pem_Type :: string
  pem_Headers :: "(string \<times> string) list"
  pem_Bytes :: "byte list"

text \<open>The dynamic types that reach an \<^verbatim>\<open>any\<close> parameter of the library.\<close>

datatype any =
    any_rsa_PublicKey "rsa_PublicKey option"
  | any_rsa_PrivateKey "rsa_PrivateKey option"

record CertOptions =
  ValidFor :: Duration
  CommonName_opt :: string

record PrivateKey =
  PrivateKey_privateKey :: "rsa_PrivateKey option"

record PublicKey =
  PublicKey_privateKey :: "rsa_PrivateKey option"

text \<open>
  The package's structs. \<^verbatim>\<open>certificate.privateKey\<close> may be nil; \<^verbatim>\<open>certificate.cert\<close>
  points at a library certificate in every object the package builds and is a value
  here. \<^verbatim>\<open>authority.c\<close> is a \<^verbatim>\<open>*certificate\<close>, an address in the heap below.
\<close>

record certificate =
  certificate_privateKey :: "PrivateKey option"
  certificate_cert :: x509_Certificate
  certificate_der :: DER

record authority =
  authority_c :: nat

section \<open>The library and the outside world\<close>

text \<open>
  The library calls are parameters of the model. The world \<open>'w\<close> stands for what the
  process-wide random source and the clock will deliver; a call that reads either
  returns the world that remains. \<open>x509_CheckSignature\<close> is the library's signature
  verification of a parsed certificate under a public key; the package never calls
  it, the specification speaks of it.
\<close>

record 'w library =
  rand_Int :: "'w \<Rightarrow> int \<Rightarrow> (error + int) \<times> 'w"
  time_Now :: "'w \<Rightarrow> Time \<times> 'w"
  rsa_GenerateKey :: "'w \<Rightarrow> nat \<Rightarrow> (error + rsa_PrivateKey) \<times> 'w"
  x509_CreateCertificate ::
    "'w \<Rightarrow> x509_Certificate \<Rightarrow> x509_Certificate \<Rightarrow> rsa_PublicKey
      \<Rightarrow> rsa_PrivateKey option \<Rightarrow> (error + DER) \<times> 'w"
  x509_ParseCertificate :: "DER \<Rightarrow> error + x509_Certificate"
  x509_CheckSignature :: "rsa_PublicKey \<Rightarrow> x509_Certificate \<Rightarrow> bool"
  x509_MarshalPKIXPublicKey :: "any \<Rightarrow> error + DER"
  x509_ParsePKCS1PrivateKey :: "DER \<Rightarrow> error + rsa_PrivateKey"
  pem_Encode :: "pem_Block \<Rightarrow> byte list \<times> error option"
  pem_Decode :: "byte list \<Rightarrow> pem_Block option \<times> byte list"

text \<open>
  The heap of the package's own structs: a \<^verbatim>\<open>*certificate\<close> or \<^verbatim>\<open>*authority\<close> is an
  index into the list of allocated objects, and \<^verbatim>\<open>&certificate{...}\<close> appends one.
\<close>

record 'w state =
  certificates :: "certificate list"
  authorities :: "authority list"
  world :: 'w

definition new_certificate :: "certificate \<Rightarrow> 'w state \<Rightarrow> nat \<times> 'w state" where
  "new_certificate c s =
     (length (certificates s), s\<lparr>certificates := certificates s @ [c]\<rparr>)"

definition new_authority :: "authority \<Rightarrow> 'w state \<Rightarrow> nat \<times> 'w state" where
  "new_authority a s =
     (length (authorities s), s\<lparr>authorities := authorities s @ [a]\<rparr>)"

definition get_certificate :: "nat \<Rightarrow> 'w state \<Rightarrow> certificate option" where
  "get_certificate p s =
     (if p < length (certificates s) then Some (certificates s ! p) else None)"

definition get_authority :: "nat \<Rightarrow> 'w state \<Rightarrow> authority option" where
  "get_authority p s =
     (if p < length (authorities s) then Some (authorities s ! p) else None)"

section \<open>Keys\<close>

definition RSAKeyBits :: nat where
  "RSAKeyBits = 2048"

definition newKey :: "'w library \<Rightarrow> 'w \<Rightarrow> (error + rsa_PrivateKey) \<times> 'w" where
  "newKey L w = rsa_GenerateKey L w RSAKeyBits"

definition NewPrivateKey :: "'w library \<Rightarrow> 'w \<Rightarrow> (error + PrivateKey) \<times> 'w" where
  "NewPrivateKey L w =
     (case newKey L w of
        (Inl err, w') \<Rightarrow> (Inl err, w')
      | (Inr k, w') \<Rightarrow> (Inr \<lparr>PrivateKey_privateKey = Some k\<rparr>, w'))"

definition PrivateKey_Public :: "PrivateKey \<Rightarrow> PublicKey" where
  "PrivateKey_Public k = \<lparr>PublicKey_privateKey = PrivateKey_privateKey k\<rparr>"

text \<open>
  \<^verbatim>\<open>GetPEM\<close> returns a byte slice and an error side by side; the nil slice is \<open>[]\<close>.
\<close>

definition PublicKey_GetPEM :: "'w library \<Rightarrow> PublicKey \<Rightarrow> PEM \<times> error option" where
  "PublicKey_GetPEM L k =
     (case x509_MarshalPKIXPublicKey L (any_rsa_PrivateKey (PublicKey_privateKey k)) of
        Inl err \<Rightarrow> ([], Some err)
      | Inr der \<Rightarrow>
          pem_Encode L \<lparr>pem_Type = ''PUBLIC KEY'', pem_Headers = [], pem_Bytes = der\<rparr>)"

definition decodePEMData :: "'w library \<Rightarrow> byte list \<Rightarrow> error + pem_Block" where
  "decodePEMData L data =
     (if length data = 0 then Inl (errors_New ''zero-length PEM block'')
      else case fst (pem_Decode L data) of
             None \<Rightarrow> Inl (errors_New ''no PEM block could be decoded'')
           | Some block \<Rightarrow> Inr block)"

definition ParseKeyDER :: "'w library \<Rightarrow> DER \<Rightarrow> error + PrivateKey" where
  "ParseKeyDER L data =
     (case x509_ParsePKCS1PrivateKey L data of
        Inl err \<Rightarrow> Inl err
      | Inr key \<Rightarrow> Inr \<lparr>PrivateKey_privateKey = Some key\<rparr>)"

definition ParseKeyPEM :: "'w library \<Rightarrow> PEM \<Rightarrow> error + PrivateKey" where
  "ParseKeyPEM L data =
     (case decodePEMData L data of
        Inl err \<Rightarrow> Inl err
      | Inr block \<Rightarrow>
          if pem_Type block \<noteq> ''RSA PRIVATE KEY''
          then Inl (fmt_Errorf ''PEM block is not of type RSA PRIVATE KEY: %q'' (pem_Type block))
          else ParseKeyDER L (pem_Bytes block))"

section \<open>Certificates\<close>

definition parseCertificateDER ::
  "'w library \<Rightarrow> DER \<Rightarrow> PrivateKey option \<Rightarrow> 'w state \<Rightarrow> (error + nat) \<times> 'w state" where
  "parseCertificateDER L data k s =
     (case x509_ParseCertificate L data of
        Inl err \<Rightarrow> (Inl err, s)
      | Inr cert \<Rightarrow>
          (case new_certificate
                  \<lparr>certificate_privateKey = k, certificate_cert = cert, certificate_der = data\<rparr> s of
             (c, s') \<Rightarrow> (Inr c, s')))"

text \<open>
  In \<^verbatim>\<open>parseCertificatePEM\<close> the branch for a block of another type assigns \<^verbatim>\<open>err\<close> and
  falls through; the \<^verbatim>\<open>return\<close> that follows sets both results anew.
\<close>

definition parseCertificatePEM ::
  "'w library \<Rightarrow> PEM \<Rightarrow> PrivateKey option \<Rightarrow> 'w state \<Rightarrow> (error + nat) \<times> 'w state" where
  "parseCertificatePEM L data k s =
     (case decodePEMData L data of
        Inl err \<Rightarrow> (Inl err, s)
      | Inr block \<Rightarrow>
          (let err = (if pem_Type block \<noteq> ''CERTIFICATE''
                      then Some (fmt_Errorf ''PEM block is not of type CERTIFICATE: %q''
                                   (pem_Type block))
                      else None)
           in parseCertificateDER L (pem_Bytes block) k s))"

definition ParseCertificatePEM ::
  "'w library \<Rightarrow> PEM \<Rightarrow> PrivateKey option \<Rightarrow> 'w state \<Rightarrow> (error + nat) \<times> 'w state" where
  "ParseCertificatePEM L data k s = parseCertificatePEM L data k s"

definition ParseCertificateDER ::
  "'w library \<Rightarrow> DER \<Rightarrow> PrivateKey option \<Rightarrow> 'w state \<Rightarrow> (error + nat) \<times> 'w state" where
  "ParseCertificateDER L data k s = parseCertificateDER L data k s"

definition certDERToPEM :: "'w library \<Rightarrow> DER \<Rightarrow> PEM \<times> error option" where
  "certDERToPEM L der =
     pem_Encode L \<lparr>pem_Type = ''CERTIFICATE'', pem_Headers = [], pem_Bytes = der\<rparr>"

text \<open>
  The methods of \<^verbatim>\<open>*certificate\<close> read the receiver from the heap; a receiver that
  points at no object is the nil dereference.
\<close>

definition certificate_GetKey :: "nat \<Rightarrow> 'w state \<Rightarrow> error + PrivateKey option" where
  "certificate_GetKey c s =
     (case get_certificate c s of
        None \<Rightarrow> Inl nil_dereference
      | Some obj \<Rightarrow> Inr (certificate_privateKey obj))"

definition certificate_GetPEM :: "'w library \<Rightarrow> nat \<Rightarrow> 'w state \<Rightarrow> error + PEM \<times> error option" where
  "certificate_GetPEM L c s =
     (case get_certificate c s of
        None \<Rightarrow> Inl nil_dereference
      | Some obj \<Rightarrow> Inr (certDERToPEM L (certificate_der obj)))"

section \<open>Authorities\<close>

text \<open>
  \<^verbatim>\<open>x509.KeyUsageDigitalSignature\<close>, \<^verbatim>\<open>KeyUsageKeyEncipherment\<close> and \<^verbatim>\<open>KeyUsageCertSign\<close>
  are the bits 0, 2 and 5 of the library's enumeration; \<^verbatim>\<open>ExtKeyUsageServerAuth\<close> is
  its value 1.
\<close>

definition KeyUsageDigitalSignature :: int where
  "KeyUsageDigitalSignature = push_bit 0 1"

definition KeyUsageKeyEncipherment :: int where
  "KeyUsageKeyEncipherment = push_bit 2 1"

definition KeyUsageCertSign :: int where
  "KeyUsageCertSign = push_bit 5 1"

definition ExtKeyUsageServerAuth :: int where
  "ExtKeyUsageServerAuth = 1"

definition RootCAKeyUsage :: int where
  "RootCAKeyUsage =
     or (or KeyUsageKeyEncipherment KeyUsageDigitalSignature) KeyUsageCertSign"

text \<open>
  \<^verbatim>\<open>Time.Add\<close> moves an instant by a duration. The library computes it exactly for every
  instant the clock can read (it departs from the sum only where a count of seconds
  would leave 64 bits), so the model is the sum.
\<close>

definition Time_Add :: "Time \<Rightarrow> Duration \<Rightarrow> Time" where
  "Time_Add t d = t + sint d"

definition randomSerialNumber :: "'w library \<Rightarrow> 'w \<Rightarrow> (error + int) \<times> 'w" where
  "randomSerialNumber L w =
     (let snLimit = push_bit 128 (1 :: int) in rand_Int L w snLimit)"

definition newAuthorityCertificate ::
  "'w library \<Rightarrow> CertOptions \<Rightarrow> 'w \<Rightarrow> (error + x509_Certificate) \<times> 'w" where
  "newAuthorityCertificate L opt w =
     (case randomSerialNumber L w of
        (Inl err, w1) \<Rightarrow> (Inl err, w1)
      | (Inr sn, w1) \<Rightarrow>
          (case time_Now L w1 of
             (notBefore, w2) \<Rightarrow>
               (let notAfter = Time_Add notBefore (ValidFor opt) in
                (Inr \<lparr>Raw = [], Signature = [],
                      SerialNumber = sn,
                      Issuer = \<lparr>CommonName = []\<rparr>,
                      Subject = \<lparr>CommonName = CommonName_opt opt\<rparr>,
                      NotBefore = notBefore,
                      NotAfter = notAfter,
                      KeyUsage = RootCAKeyUsage,
                      ExtKeyUsage = [ExtKeyUsageServerAuth],
                      BasicConstraintsValid = True,
                      IsCA = True\<rparr>, w2))))"

definition newServerCertificate ::
  "'w library \<Rightarrow> CertOptions \<Rightarrow> 'w \<Rightarrow> (error + x509_Certificate) \<times> 'w" where
  "newServerCertificate L opt w =
     (case randomSerialNumber L w of
        (Inl err, w1) \<Rightarrow> (Inl err, w1)
      | (Inr sn, w1) \<Rightarrow>
          (case time_Now L w1 of
             (notBefore, w2) \<Rightarrow>
               (let notAfter = Time_Add notBefore (ValidFor opt) in
                (Inr \<lparr>Raw = [], Signature = [],
                      SerialNumber = sn,
                      Issuer = \<lparr>CommonName = []\<rparr>,
                      Subject = \<lparr>CommonName = CommonName_opt opt\<rparr>,
                      NotBefore = notBefore,
                      NotAfter = notAfter,
                      KeyUsage = 0,
                      ExtKeyUsage = [],
                      BasicConstraintsValid = True,
                      IsCA = False\<rparr>, w2))))"

text \<open>\<^verbatim>\<open>if k == nil { k, err = NewPrivateKey() }\<close>, shared by both constructors.\<close>

definition key_or_new ::
  "'w library \<Rightarrow> PrivateKey option \<Rightarrow> 'w \<Rightarrow> (error + PrivateKey) \<times> 'w" where
  "key_or_new L k w = (case k of None \<Rightarrow> NewPrivateKey L w | Some k' \<Rightarrow> (Inr k', w))"

definition ParseAuthorityDER ::
  "'w library \<Rightarrow> DER \<Rightarrow> PrivateKey option \<Rightarrow> 'w state \<Rightarrow> (error + nat) \<times> 'w state" where
  "ParseAuthorityDER L data k s =
     (case parseCertificateDER L data k s of
        (Inl err, s') \<Rightarrow> (Inl err, s')
      | (Inr c, s') \<Rightarrow>
          (case new_authority \<lparr>authority_c = c\<rparr> s' of (a, s'') \<Rightarrow> (Inr a, s'')))"

definition ParseAuthorityPEM ::
  "'w library \<Rightarrow> PEM \<Rightarrow> PrivateKey option \<Rightarrow> 'w state \<Rightarrow> (error + nat) \<times> 'w state" where
  "ParseAuthorityPEM L data k s =
     (case parseCertificatePEM L data k s of
        (Inl err, s') \<Rightarrow> (Inl err, s')
      | (Inr c, s') \<Rightarrow>
          (case new_authority \<lparr>authority_c = c\<rparr> s' of (a, s'') \<Rightarrow> (Inr a, s'')))"

definition authority_GetPEM :: "'w library \<Rightarrow> nat \<Rightarrow> 'w state \<Rightarrow> error + PEM \<times> error option" where
  "authority_GetPEM L a s =
     (case get_authority a s of
        None \<Rightarrow> Inl nil_dereference
      | Some obj \<Rightarrow> certificate_GetPEM L (authority_c obj) s)"

definition authority_GetKey :: "nat \<Rightarrow> 'w state \<Rightarrow> error + PrivateKey option" where
  "authority_GetKey a s =
     (case get_authority a s of
        None \<Rightarrow> Inl nil_dereference
      | Some obj \<Rightarrow> certificate_GetKey (authority_c obj) s)"

definition authority_Reload :: "'w library \<Rightarrow> nat \<Rightarrow> 'w state \<Rightarrow> (error + nat) \<times> 'w state" where
  "authority_Reload L a s =
     (case get_authority a s of
        None \<Rightarrow> (Inl nil_dereference, s)
      | Some obj \<Rightarrow>
          (case get_certificate (authority_c obj) s of
             None \<Rightarrow> (Inl nil_dereference, s)
           | Some c \<Rightarrow> ParseAuthorityDER L (certificate_der c) (certificate_privateKey c) s))"

text \<open>
  \<^verbatim>\<open>&k.privateKey.PublicKey\<close> dereferences \<^verbatim>\<open>k.privateKey\<close>, so a wrapper around a nil
  RSA key panics before the library is called.
\<close>

definition NewAuthority ::
  "'w library \<Rightarrow> PrivateKey option \<Rightarrow> CertOptions \<Rightarrow> 'w state \<Rightarrow> (error + nat) \<times> 'w state" where
  "NewAuthority L k opt s =
     (case key_or_new L k (world s) of
        (Inl err, w1) \<Rightarrow> (Inl err, s\<lparr>world := w1\<rparr>)
      | (Inr k1, w1) \<Rightarrow>
          (case newAuthorityCertificate L opt w1 of
             (Inl err, w2) \<Rightarrow> (Inl err, s\<lparr>world := w2\<rparr>)
           | (Inr cert, w2) \<Rightarrow>
               (case PrivateKey_privateKey k1 of
                  None \<Rightarrow> (Inl nil_dereference, s\<lparr>world := w2\<rparr>)
                | Some rk \<Rightarrow>
                    (case x509_CreateCertificate L w2 cert cert (rsa_PublicKey_of rk) (Some rk) of
                       (Inl err, w3) \<Rightarrow> (Inl err, s\<lparr>world := w3\<rparr>)
                     | (Inr der, w3) \<Rightarrow>
                         (case new_certificate
                                 \<lparr>certificate_privateKey = Some k1,
                                  certificate_cert = cert,
                                  certificate_der = der\<rparr> (s\<lparr>world := w3\<rparr>) of
                            (c, s1) \<Rightarrow>
                              (case new_authority \<lparr>authority_c = c\<rparr> s1 of
                                 (auth, s2) \<Rightarrow> authority_Reload L auth s2))))))"

text \<open>
  \<^verbatim>\<open>NewCert\<close> reads the receiver's certificate and key from the heap. The issuer
  certificate handed to the library is \<^verbatim>\<open>a.c.cert\<close>, the signing key is
  \<^verbatim>\<open>a.c.privateKey.privateKey\<close>; an authority loaded without a key panics there.
\<close>

definition authority_NewCert ::
  "'w library \<Rightarrow> nat \<Rightarrow> PrivateKey option \<Rightarrow> CertOptions \<Rightarrow> 'w state
     \<Rightarrow> (error + nat) \<times> 'w state" where
  "authority_NewCert L a k opt s =
     (case key_or_new L k (world s) of
        (Inl err, w1) \<Rightarrow> (Inl err, s\<lparr>world := w1\<rparr>)
      | (Inr k1, w1) \<Rightarrow>
          (case newServerCertificate L opt w1 of
             (Inl err, w2) \<Rightarrow> (Inl err, s\<lparr>world := w2\<rparr>)
           | (Inr cert, w2) \<Rightarrow>
               (case get_authority a s of
                  None \<Rightarrow> (Inl nil_dereference, s\<lparr>world := w2\<rparr>)
                | Some aobj \<Rightarrow>
                    (case get_certificate (authority_c aobj) s of
                       None \<Rightarrow> (Inl nil_dereference, s\<lparr>world := w2\<rparr>)
                     | Some ac \<Rightarrow>
                         (case PrivateKey_privateKey k1 of
                            None \<Rightarrow> (Inl nil_dereference, s\<lparr>world := w2\<rparr>)
                          | Some rk \<Rightarrow>
                              (case certificate_privateKey ac of
                                 None \<Rightarrow> (Inl nil_dereference, s\<lparr>world := w2\<rparr>)
                               | Some ak \<Rightarrow>
                                   (case x509_CreateCertificate L w2 cert (certificate_cert ac)
                                           (rsa_PublicKey_of rk) (PrivateKey_privateKey ak) of
                                      (Inl err, w3) \<Rightarrow> (Inl err, s\<lparr>world := w3\<rparr>)
                                    | (Inr der, w3) \<Rightarrow>
                                        (case new_certificate
                                                \<lparr>certificate_privateKey = Some k1,
                                                 certificate_cert = cert,
                                                 certificate_der = der\<rparr> (s\<lparr>world := w3\<rparr>) of
                                           (c, s') \<Rightarrow> (Inr c, s')))))))))"

section \<open>What the package relies on in the library\<close>

text \<open>
  A certificate that \<^verbatim>\<open>x509.CreateCertificate\<close> returns parses again, names the parent's
  subject as its issuer, and verifies under the public half of the signing key; without
  a signing key the call does not succeed.
\<close>

definition CreateCertificate_contract :: "'w library \<Rightarrow> bool" where
  "CreateCertificate_contract L \<longleftrightarrow>
     (\<forall>w tmpl parent pub priv der w'.
        x509_CreateCertificate L w tmpl parent pub priv = (Inr der, w') \<longrightarrow>
        (\<exists>rk pc. priv = Some rk \<and> x509_ParseCertificate L der = Inr pc \<and>
                 Issuer pc = Subject parent \<and>
                 x509_CheckSignature L (rsa_PublicKey_of rk) pc))"

text \<open>
  \<^verbatim>\<open>pem.Decode\<close> reads back the "CERTIFICATE" block without headers that \<^verbatim>\<open>pem.Encode\<close>
  wrote without error, and what \<^verbatim>\<open>pem.Encode\<close> wrote is not empty.
\<close>

definition pem_contract :: "'w library \<Rightarrow> bool" where
  "pem_contract L \<longleftrightarrow>
     (\<forall>der out.
        pem_Encode L \<lparr>pem_Type = ''CERTIFICATE'', pem_Headers = [], pem_Bytes = der\<rparr> =
          (out, None) \<longrightarrow>
        out \<noteq> [] \<and>
        fst (pem_Decode L out) =
          Some \<lparr>pem_Type = ''CERTIFICATE'', pem_Headers = [], pem_Bytes = der\<rparr>)"

text \<open>\<^verbatim>\<open>rand.Int\<close> returns a value in \<open>[0, max)\<close>.\<close>

definition rand_Int_contract :: "'w library \<Rightarrow> bool" where
  "rand_Int_contract L \<longleftrightarrow>
     (\<forall>w m n w'. rand_Int L w m = (Inr n, w') \<longrightarrow> 0 \<le> n \<and> n < m)"

text \<open>
  \<^verbatim>\<open>rand.Int\<close> is uniform below \<open>m\<close> over a finite set \<open>\<Omega>\<close> of equally likely worlds:
  every value below \<open>m\<close> is drawn in the same number of worlds, and no world gives
  anything else.
\<close>

definition uniform_on :: "'w set \<Rightarrow> ('w \<Rightarrow> error + int) \<Rightarrow> int \<Rightarrow> bool" where
  "uniform_on \<Omega> X m \<longleftrightarrow>
     finite \<Omega> \<and> \<Omega> \<noteq> {} \<and>
     (\<forall>v. 0 \<le> v \<and> v < m \<longrightarrow> int (card {w \<in> \<Omega>. X w = Inr v}) * m = int (card \<Omega>)) \<and>
     (\<forall>w \<in> \<Omega>. \<exists>v. X w = Inr v \<and> 0 \<le> v \<and> v < m)"

text \<open>\<^verbatim>\<open>x509.MarshalPKIXPublicKey\<close> has no case for a \<^verbatim>\<open>*rsa.PrivateKey\<close>.\<close>

definition MarshalPKIXPublicKey_rejects_private :: "'w library \<Rightarrow> bool" where
  "MarshalPKIXPublicKey_rejects_private L \<longleftrightarrow>
     (\<forall>p. \<exists>err. x509_MarshalPKIXPublicKey L (any_rsa_PrivateKey p) = Inl err)"

section \<open>A small library to run the package on\<close>

text \<open>
  An instance of the library over one-byte fields, on which the definitions above can
  be evaluated: a certificate is one signature byte, six one-byte fields, the
  extended key usages and the subject name, each behind its length, and the issuer
  name; a text block is one tag byte followed by the payload.
\<close>

record toy_world =
  toy_seed :: int
  toy_clock :: int

definition byte_of_char :: "char \<Rightarrow> byte" where
  "byte_of_char c = of_nat (of_char c)"

definition char_of_byte :: "byte \<Rightarrow> char" where
  "char_of_byte b = char_of (unat b)"

definition byte_of_bool :: "bool \<Rightarrow> byte" where
  "byte_of_bool b = (if b then 1 else 0)"

definition fits_byte :: "int \<Rightarrow> bool" where
  "fits_byte n \<longleftrightarrow> 0 \<le> n \<and> n < 256"

definition toy_rand_Int :: "toy_world \<Rightarrow> int \<Rightarrow> (error + int) \<times> toy_world" where
  "toy_rand_Int w m =
     (if m \<le> 0 then (Inl (library_error ''crypto/rand: argument to Int is <= 0''), w)
      else (Inr (toy_seed w mod m), w\<lparr>toy_seed := toy_seed w + 1\<rparr>))"

definition toy_time_Now :: "toy_world \<Rightarrow> Time \<times> toy_world" where
  "toy_time_Now w = (toy_clock w, w\<lparr>toy_clock := toy_clock w + 1\<rparr>)"

definition toy_key :: rsa_PrivateKey where
  "toy_key = \<lparr>rsa_PublicKey_of = \<lparr>rsa_N = 3233, rsa_E = 17\<rparr>, rsa_D = 2753, rsa_Primes = [61, 53]\<rparr>"

definition toy_GenerateKey :: "toy_world \<Rightarrow> nat \<Rightarrow> (error + rsa_PrivateKey) \<times> toy_world" where
  "toy_GenerateKey w bits = (Inr toy_key, w\<lparr>toy_seed := toy_seed w + 1\<rparr>)"

definition toy_signature :: "rsa_PublicKey \<Rightarrow> byte" where
  "toy_signature pub = of_int (rsa_N pub)"

definition toy_CreateCertificate ::
  "toy_world \<Rightarrow> x509_Certificate \<Rightarrow> x509_Certificate \<Rightarrow> rsa_PublicKey
     \<Rightarrow> rsa_PrivateKey option \<Rightarrow> (error + DER) \<times> toy_world" where
  "toy_CreateCertificate w tmpl parent pub priv =
     (case priv of
        None \<Rightarrow> (Inl nil_dereference, w)
      | Some rk \<Rightarrow>
          if fits_byte (SerialNumber tmpl) \<and> fits_byte (NotBefore tmpl) \<and>
             fits_byte (NotAfter tmpl) \<and> fits_byte (KeyUsage tmpl) \<and>
             length (ExtKeyUsage tmpl) < 256 \<and> length (CommonName (Subject tmpl)) < 256
          then
            (Inr (toy_signature (rsa_PublicKey_of rk) #
                  of_int (SerialNumber tmpl) #
                  of_int (NotBefore tmpl) #
                  of_int (NotAfter tmpl) #
                  of_int (KeyUsage tmpl) #
                  byte_of_bool (BasicConstraintsValid tmpl) #
                  byte_of_bool (IsCA tmpl) #
                  of_nat (length (ExtKeyUsage tmpl)) #
                  map of_int (ExtKeyUsage tmpl) @
                  of_nat (length (CommonName (Subject tmpl))) #
                  map byte_of_char (CommonName (Subject tmpl)) @
                  map byte_of_char (CommonName (Subject parent))), w)
          else (Inl (library_error ''x509: field does not fit''), w))"

definition toy_ParseCertificate :: "DER \<Rightarrow> error + x509_Certificate" where
  "toy_ParseCertificate der =
     (case der of
        sg # sn # nb # na # ku # bcv # ca # ne # rest \<Rightarrow>
          (if unat ne \<le> length rest then
             (case drop (unat ne) rest of
                ns # names \<Rightarrow>
                  (if unat ns \<le> length names then
                     Inr \<lparr>Raw = der, Signature = [sg],
                          SerialNumber = uint sn,
                          Issuer = \<lparr>CommonName = map char_of_byte (drop (unat ns) names)\<rparr>,
                          Subject = \<lparr>CommonName = map char_of_byte (take (unat ns) names)\<rparr>,
                          NotBefore = uint nb,
                          NotAfter = uint na,
                          KeyUsage = uint ku,
                          ExtKeyUsage = map uint (take (unat ne) rest),
                          BasicConstraintsValid = (bcv \<noteq> 0),
                          IsCA = (ca \<noteq> 0)\<rparr>
                   else Inl (library_error ''x509: malformed certificate''))
              | [] \<Rightarrow> Inl (library_error ''x509: malformed certificate''))
           else Inl (library_error ''x509: malformed certificate''))
      | _ \<Rightarrow> Inl (library_error ''x509: malformed certificate''))"

definition toy_CheckSignature :: "rsa_PublicKey \<Rightarrow> x509_Certificate \<Rightarrow> bool" where
  "toy_CheckSignature pub c \<longleftrightarrow> Signature c = [toy_signature pub]"

definition toy_MarshalPKIXPublicKey :: "any \<Rightarrow> error + DER" where
  "toy_MarshalPKIXPublicKey k =
     (case k of
        any_rsa_PublicKey (Some pub) \<Rightarrow> Inr [of_int (rsa_N pub), of_int (rsa_E pub)]
      | any_rsa_PublicKey None \<Rightarrow> Inl nil_dereference
      | any_rsa_PrivateKey p \<Rightarrow>
          Inl (library_error ''x509: unsupported public key type: *rsa.PrivateKey''))"

definition toy_ParsePKCS1PrivateKey :: "DER \<Rightarrow> error + rsa_PrivateKey" where
  "toy_ParsePKCS1PrivateKey der =
     (case der of
        [n, e, d] \<Rightarrow>
          Inr \<lparr>rsa_PublicKey_of = \<lparr>rsa_N = uint n, rsa_E = uint e\<rparr>, rsa_D = uint d, rsa_Primes = []\<rparr>
      | _ \<Rightarrow> Inl (library_error ''x509: failed to parse private key''))"

definition toy_tag :: "string \<Rightarrow> byte option" where
  "toy_tag t =
     (if t = ''CERTIFICATE'' then Some 67
      else if t = ''RSA PRIVATE KEY'' then Some 82
      else if t = ''PUBLIC KEY'' then Some 80
      else None)"

definition toy_pem_Encode :: "pem_Block \<Rightarrow> byte list \<times> error option" where
  "toy_pem_Encode b =
     (case toy_tag (pem_Type b) of
        None \<Rightarrow> ([], Some (library_error ''pem: unknown type''))
      | Some t \<Rightarrow>
          if pem_Headers b = [] then (t # pem_Bytes b, None)
          else ([], Some (library_error ''pem: cannot encode a header'')))"

definition toy_pem_Decode :: "byte list \<Rightarrow> pem_Block option \<times> byte list" where
  "toy_pem_Decode data =
     (case data of
        [] \<Rightarrow> (None, data)
      | t # payload \<Rightarrow>
          if t = 67 then
            (Some \<lparr>pem_Type = ''CERTIFICATE'', pem_Headers = [], pem_Bytes = payload\<rparr>, [])
          else if t = 82 then
            (Some \<lparr>pem_Type = ''RSA PRIVATE KEY'', pem_Headers = [], pem_Bytes = payload\<rparr>, [])
          else if t = 80 then
            (Some \<lparr>pem_Type = ''PUBLIC KEY'', pem_Headers = [], pem_Bytes = payload\<rparr>, [])
          else (None, data))"

definition toyL :: "toy_world library" where
  "toyL =
     \<lparr>rand_Int = toy_rand_Int,
      time_Now = toy_time_Now,
      rsa_GenerateKey = toy_GenerateKey,
      x509_CreateCertificate = toy_CreateCertificate,
      x509_ParseCertificate = toy_ParseCertificate,
      x509_CheckSignature = toy_CheckSignature,
      x509_MarshalPKIXPublicKey = toy_MarshalPKIXPublicKey,
      x509_ParsePKCS1PrivateKey = toy_ParsePKCS1PrivateKey,
      pem_Encode = toy_pem_Encode,
      pem_Decode = toy_pem_Decode\<rparr>"

definition toy_s0 :: "toy_world state" where
  "toy_s0 = \<lparr>certificates = [], authorities = [], world = \<lparr>toy_seed = 7, toy_clock = 100\<rparr>\<rparr>"

definition root_opts :: CertOptions where
  "root_opts = \<lparr>ValidFor = 90, CommonName_opt = ''root''\<rparr>"

definition leaf_opts :: CertOptions where
  "leaf_opts = \<lparr>ValidFor = 60, CommonName_opt = ''leaf''\<rparr>"

text \<open>
  The values that a run on the small library goes through: the key it generates, the
  root template and the parsed root certificate, the leaf template and the parsed leaf
  certificate, the heap after \<^verbatim>\<open>NewAuthority\<close> and the heap after \<^verbatim>\<open>NewCert\<close>.
\<close>

definition toy_pk :: PrivateKey where
  "toy_pk = \<lparr>PrivateKey_privateKey = Some toy_key\<rparr>"

definition toy_root_der :: DER where
  "toy_root_der = [161, 8, 100, 190, 37, 1, 1, 1, 1, 4, 114, 111, 111, 116, 114, 111, 111, 116]"

definition toy_leaf_der :: DER where
  "toy_leaf_der = [161, 10, 101, 161, 0, 1, 0, 0, 4, 108, 101, 97, 102, 114, 111, 111, 116]"

definition toy_root_template :: x509_Certificate where
  "toy_root_template =
     \<lparr>Raw = [], Signature = [], SerialNumber = 8,
      Issuer = \<lparr>CommonName = []\<rparr>, Subject = \<lparr>CommonName = ''root''\<rparr>,
      NotBefore = 100, NotAfter = 190, KeyUsage = 37, ExtKeyUsage = [1],
      BasicConstraintsValid = True, IsCA = True\<rparr>"

definition toy_root_cert :: x509_Certificate where
  "toy_root_cert =
     \<lparr>Raw = toy_root_der, Signature = [161], SerialNumber = 8,
      Issuer = \<lparr>CommonName = ''root''\<rparr>, Subject = \<lparr>CommonName = ''root''\<rparr>,
      NotBefore = 100, NotAfter = 190, KeyUsage = 37, ExtKeyUsage = [1],
      BasicConstraintsValid = True, IsCA = True\<rparr>"

definition toy_leaf_template :: x509_Certificate where
  "toy_leaf_template =
     \<lparr>Raw = [], Signature = [], SerialNumber = 10,
      Issuer = \<lparr>CommonName = []\<rparr>, Subject = \<lparr>CommonName = ''leaf''\<rparr>,
      NotBefore = 101, NotAfter = 161, KeyUsage = 0, ExtKeyUsage = [],
      BasicConstraintsValid = True, IsCA = False\<rparr>"

definition toy_leaf_cert :: x509_Certificate where
  "toy_leaf_cert =
     \<lparr>Raw = toy_leaf_der, Signature = [161], SerialNumber = 10,
      Issuer = \<lparr>CommonName = ''root''\<rparr>, Subject = \<lparr>CommonName = ''leaf''\<rparr>,
      NotBefore = 101, NotAfter = 161, KeyUsage = 0, ExtKeyUsage = [],
      BasicConstraintsValid = True, IsCA = False\<rparr>"

definition toy_s1 :: "toy_world state" where
  "toy_s1 =
     \<lparr>certificates =
        [\<lparr>certificate_privateKey = Some toy_pk, certificate_cert = toy_root_template,
          certificate_der = toy_root_der\<rparr>,
         \<lparr>certificate_privateKey = Some toy_pk, certificate_cert = toy_root_cert,
          certificate_der = toy_root_der\<rparr>],
      authorities = [\<lparr>authority_c = 0\<rparr>, \<lparr>authority_c = 1\<rparr>],
      world = \<lparr>toy_seed = 9, toy_clock = 101\<rparr>\<rparr>"

definition toy_s2 :: "toy_world state" where
  "toy_s2 =
     \<lparr>certificates =
        [\<lparr>certificate_privateKey = Some toy_pk, certificate_cert = toy_root_template,
          certificate_der = toy_root_der\<rparr>,
         \<lparr>certificate_privateKey = Some toy_pk, certificate_cert = toy_root_cert,
          certificate_der = toy_root_der\<rparr>,
         \<lparr>certificate_privateKey = Some toy_pk, certificate_cert = toy_leaf_template,
          certificate_der = toy_leaf_der\<rparr>],
      authorities = [\<lparr>authority_c = 0\<rparr>, \<lparr>authority_c = 1\<rparr>],
      world = \<lparr>toy_seed = 11, toy_clock = 102\<rparr>\<rparr>"

text \<open>
  The serial number of the template a builder returns, or the builder's error; and the
  worlds of the small library in which the random source holds any one value below
  \<open>2 ^ 128\<close>, each taken as equally likely.
\<close>

definition template_serial :: "(error + x509_Certificate) \<times> 'w \<Rightarrow> error + int" where
  "template_serial r = (case fst r of Inl err \<Rightarrow> Inl err | Inr t \<Rightarrow> Inr (SerialNumber t))"

definition toy_worlds :: "toy_world set" where
  "toy_worlds = (\<lambda>n. \<lparr>toy_seed = n, toy_clock = 0\<rparr>) ` {0 ..< 2 ^ 128}"

section \<open>Facts about the small library\<close>

lemmas toy_simps =
  toyL_def toy_rand_Int_def toy_time_Now_def toy_GenerateKey_def toy_CreateCertificate_def
  toy_ParseCertificate_def toy_CheckSignature_def toy_MarshalPKIXPublicKey_def
  toy_ParsePKCS1PrivateKey_def toy_pem_Encode_def toy_pem_Decode_def toy_tag_def
  toy_signature_def toy_key_def fits_byte_def byte_of_bool_def

lemmas toy_values =
  toy_pk_def toy_root_der_def toy_leaf_der_def toy_root_template_def toy_root_cert_def
  toy_leaf_template_def toy_leaf_cert_def toy_s0_def toy_s1_def toy_s2_def root_opts_def
  leaf_opts_def

lemmas char_eval = char_of_byte_def byte_of_char_def char_of_def bit_Suc_0_iff

lemma toyL_sel [simp]:
  "rand_Int toyL = toy_rand_Int"
  "time_Now toyL = toy_time_Now"
  "rsa_GenerateKey toyL = toy_GenerateKey"
  "x509_CreateCertificate toyL = toy_CreateCertificate"
  "x509_ParseCertificate toyL = toy_ParseCertificate"
  "x509_CheckSignature toyL = toy_CheckSignature"
  "x509_MarshalPKIXPublicKey toyL = toy_MarshalPKIXPublicKey"
  "x509_ParsePKCS1PrivateKey toyL = toy_ParsePKCS1PrivateKey"
  "pem_Encode toyL = toy_pem_Encode"
  "pem_Decode toyL = toy_pem_Decode"
  by (simp_all add: toyL_def)

subsection \<open>The run: a root authority, then a leaf\<close>

lemma toy_parse_root: "toy_ParseCertificate toy_root_der = Inr toy_root_cert"
  by (simp add: toy_ParseCertificate_def toy_values char_eval)

lemma toy_parse_leaf: "toy_ParseCertificate toy_leaf_der = Inr toy_leaf_cert"
  by (simp add: toy_ParseCertificate_def toy_values char_eval)

lemma toy_key_or_new:
  "key_or_new toyL None \<lparr>toy_seed = n, toy_clock = c\<rparr> =
     (Inr toy_pk, \<lparr>toy_seed = n + 1, toy_clock = c\<rparr>)"
  by (simp add: key_or_new_def NewPrivateKey_def newKey_def toy_GenerateKey_def toy_pk_def)

lemma toy_newAuthorityCertificate:
  "newAuthorityCertificate toyL root_opts \<lparr>toy_seed = 8, toy_clock = 100\<rparr> =
     (Inr toy_root_template, \<lparr>toy_seed = 9, toy_clock = 101\<rparr>)"
  by (simp add: newAuthorityCertificate_def randomSerialNumber_def Time_Add_def
        toy_rand_Int_def toy_time_Now_def toy_values RootCAKeyUsage_def
        KeyUsageKeyEncipherment_def KeyUsageDigitalSignature_def KeyUsageCertSign_def
        ExtKeyUsageServerAuth_def)

lemma toy_newServerCertificate:
  "newServerCertificate toyL leaf_opts \<lparr>toy_seed = 10, toy_clock = 101\<rparr> =
     (Inr toy_leaf_template, \<lparr>toy_seed = 11, toy_clock = 102\<rparr>)"
  by (simp add: newServerCertificate_def randomSerialNumber_def Time_Add_def
        toy_rand_Int_def toy_time_Now_def toy_values)

lemma toy_sign_root:
  "toy_CreateCertificate w toy_root_template toy_root_template (rsa_PublicKey_of toy_key)
     (Some toy_key) = (Inr toy_root_der, w)"
  by (simp add: toy_CreateCertificate_def toy_values toy_simps char_eval)

lemma toy_sign_leaf:
  "toy_CreateCertificate w toy_leaf_template toy_root_cert (rsa_PublicKey_of toy_key)
     (Some toy_key) = (Inr toy_leaf_der, w)"
  by (simp add: toy_CreateCertificate_def toy_values toy_simps char_eval)

lemma toy_NewAuthority: "NewAuthority toyL None root_opts toy_s0 = (Inr 1, toy_s1)"
  by (simp add: NewAuthority_def toy_key_or_new toy_newAuthorityCertificate toy_sign_root
        toy_parse_root authority_Reload_def ParseAuthorityDER_def parseCertificateDER_def
        new_certificate_def new_authority_def get_certificate_def get_authority_def
        toy_s0_def toy_s1_def toy_pk_def)

lemma toy_NewCert: "authority_NewCert toyL 1 None leaf_opts toy_s1 = (Inr 2, toy_s2)"
  by (simp add: authority_NewCert_def toy_s1_def toy_s2_def toy_key_or_new
        toy_newServerCertificate toy_sign_leaf new_certificate_def get_certificate_def
        get_authority_def toy_pk_def)

lemma toy_decode_key_tagged:
  "decodePEMData toyL (82 # toy_leaf_der) =
     Inr \<lparr>pem_Type = ''RSA PRIVATE KEY'', pem_Headers = [], pem_Bytes = toy_leaf_der\<rparr>"
  by (simp add: decodePEMData_def toy_pem_Decode_def)

subsection \<open>The small library keeps the library's promises\<close>

lemma char_of_byte_of_char: "char_of_byte (byte_of_char c) = c"
  by (simp add: char_of_byte_def byte_of_char_def unat_of_nat)

lemma map_char_of_byte: "map (char_of_byte \<circ> byte_of_char) cs = cs"
  by (induction cs) (simp_all add: char_of_byte_of_char)

lemma unat_length_byte: "n < 256 \<Longrightarrow> unat (of_nat n :: byte) = n"
  by (simp add: unat_of_nat)

lemma toy_create_parse:
  assumes "toy_CreateCertificate w tmpl parent pub priv = (Inr der, w')"
  shows "\<exists>rk pc. priv = Some rk \<and> toy_ParseCertificate der = Inr pc \<and>
           Raw pc = der \<and> der \<noteq> [] \<and>
           Issuer pc = \<lparr>CommonName = CommonName (Subject parent)\<rparr> \<and>
           Signature pc = [toy_signature (rsa_PublicKey_of rk)]"
  using assms
  by (auto simp: toy_CreateCertificate_def toy_ParseCertificate_def unat_length_byte
        map_char_of_byte split: option.splits if_splits)

lemma toy_CreateCertificate_contract: "CreateCertificate_contract toyL"
  unfolding CreateCertificate_contract_def
proof (intro allI impI)
  fix w tmpl parent pub priv der w'
  assume "x509_CreateCertificate toyL w tmpl parent pub priv = (Inr der, w')"
  then have "toy_CreateCertificate w tmpl parent pub priv = (Inr der, w')" by simp
  from toy_create_parse [OF this] obtain rk pc where
    *: "priv = Some rk" "toy_ParseCertificate der = Inr pc"
       "Issuer pc = \<lparr>CommonName = CommonName (Subject parent)\<rparr>"
       "Signature pc = [toy_signature (rsa_PublicKey_of rk)]" by blast
  have "Issuer pc = Subject parent" using *(3) by (cases "Subject parent") simp
  with * show "\<exists>rk pc. priv = Some rk \<and> x509_ParseCertificate toyL der = Inr pc \<and>
                 Issuer pc = Subject parent \<and>
                 x509_CheckSignature toyL (rsa_PublicKey_of rk) pc"
    by (simp add: toy_CheckSignature_def)
qed

lemma toy_pem_contract: "pem_contract toyL"
  by (auto simp: pem_contract_def toy_pem_Encode_def toy_pem_Decode_def toy_tag_def)

lemma toy_rand_Int_contract: "rand_Int_contract toyL"
  by (auto simp: rand_Int_contract_def toy_rand_Int_def split: if_splits)

lemma toy_rejects_private: "MarshalPKIXPublicKey_rejects_private toyL"
  by (simp add: MarshalPKIXPublicKey_rejects_private_def toy_MarshalPKIXPublicKey_def)

lemma toy_worlds_card: "finite toy_worlds \<and> int (card toy_worlds) = 2 ^ 128"
proof -
  have "inj_on (\<lambda>n. \<lparr>toy_seed = n, toy_clock = 0\<rparr>) {0 ..< (2 ^ 128 :: int)}"
    by (rule inj_onI) simp
  then have "card toy_worlds = card {0 ..< (2 ^ 128 :: int)}"
    unfolding toy_worlds_def by (rule card_image)
  then show ?thesis by (simp add: toy_worlds_def)
qed

lemma toy_draw:
  "w \<in> toy_worlds \<Longrightarrow>
     fst (toy_rand_Int w (2 ^ 128)) = Inr (toy_seed w) \<and> 0 \<le> toy_seed w \<and> toy_seed w < 2 ^ 128"
  by (auto simp: toy_worlds_def toy_rand_Int_def)

lemma toy_uniform: "uniform_on toy_worlds (\<lambda>w. fst (rand_Int toyL w (2 ^ 128))) (2 ^ 128)"
proof -
  have one: "{w \<in> toy_worlds. fst (toy_rand_Int w (2 ^ 128)) = Inr v} =
               {\<lparr>toy_seed = v, toy_clock = 0\<rparr>}"
    if "0 \<le> v" "v < 2 ^ 128" for v
  proof (rule set_eqI)
    fix w
    show "w \<in> {w \<in> toy_worlds. fst (toy_rand_Int w (2 ^ 128)) = Inr v} \<longleftrightarrow>
          w \<in> {\<lparr>toy_seed = v, toy_clock = 0\<rparr>}"
    proof
      assume "w \<in> {w \<in> toy_worlds. fst (toy_rand_Int w (2 ^ 128)) = Inr v}"
      then have "w \<in> toy_worlds" "fst (toy_rand_Int w (2 ^ 128)) = Inr v" by simp_all
      with toy_draw [of w] have "toy_seed w = v" "toy_clock w = 0"
        by (auto simp: toy_worlds_def)
      then show "w \<in> {\<lparr>toy_seed = v, toy_clock = 0\<rparr>}" by simp
    next
      assume "w \<in> {\<lparr>toy_seed = v, toy_clock = 0\<rparr>}"
      then have w: "w = \<lparr>toy_seed = v, toy_clock = 0\<rparr>" by simp
      with that have "w \<in> toy_worlds" by (simp add: toy_worlds_def)
      with toy_draw [of w] w
      show "w \<in> {w \<in> toy_worlds. fst (toy_rand_Int w (2 ^ 128)) = Inr v}"
        by simp
    qed
  qed
  have ne: "toy_worlds \<noteq> {}" by (simp add: toy_worlds_def)
  show ?thesis
    unfolding uniform_on_def toyL_sel
  proof (intro conjI allI impI ballI)
    show "finite toy_worlds" using toy_worlds_card by simp
    show "toy_worlds \<noteq> {}" by (rule ne)
  next
    fix v :: int
    assume "0 \<le> v \<and> v < 2 ^ 128"
    then have "card {w \<in> toy_worlds. fst (toy_rand_Int w (2 ^ 128)) = Inr v} = 1"
      using one [of v] by simp
    then show "int (card {w \<in> toy_worlds. fst (toy_rand_Int w (2 ^ 128)) = Inr v}) * 2 ^ 128 =
               int (card toy_worlds)"
      using toy_worlds_card by simp
  next
    fix w
    assume "w \<in> toy_worlds"
    then show "\<exists>v. fst (toy_rand_Int w (2 ^ 128)) = Inr v \<and> 0 \<le> v \<and> v < 2 ^ 128"
      using toy_draw [of w] by blast
  qed
qed

section \<open>How the constructors succeed\<close>

lemma newServerCertificate_template:
  "newServerCertificate L opt w = (Inr t, w') \<Longrightarrow>
     Raw t = [] \<and> Signature t = [] \<and> Issuer t = \<lparr>CommonName = []\<rparr>"
  by (auto simp: newServerCertificate_def Let_def split: prod.splits sum.splits)

lemma NewCert_success:
  assumes "authority_NewCert L a k opt s = (Inr c, s')"
  obtains k1 w1 tmpl w2 aobj ac rk ak der w3 where
    "key_or_new L k (world s) = (Inr k1, w1)"
    "newServerCertificate L opt w1 = (Inr tmpl, w2)"
    "get_authority a s = Some aobj"
    "get_certificate (authority_c aobj) s = Some ac"
    "PrivateKey_privateKey k1 = Some rk"
    "certificate_privateKey ac = Some ak"
    "x509_CreateCertificate L w2 tmpl (certificate_cert ac) (rsa_PublicKey_of rk)
       (PrivateKey_privateKey ak) = (Inr der, w3)"
    "c = length (certificates s)"
    "s' = s\<lparr>world := w3,
             certificates := certificates s @
               [\<lparr>certificate_privateKey = Some k1, certificate_cert = tmpl,
                 certificate_der = der\<rparr>]\<rparr>"
  using assms
  by (auto simp: authority_NewCert_def new_certificate_def
        split: prod.splits sum.splits option.splits)

lemma NewAuthority_success:
  assumes "NewAuthority L k opt s = (Inr a, s')"
  obtains k1 w1 tmpl w2 rk der w3 where
    "key_or_new L k (world s) = (Inr k1, w1)"
    "newAuthorityCertificate L opt w1 = (Inr tmpl, w2)"
    "PrivateKey_privateKey k1 = Some rk"
    "x509_CreateCertificate L w2 tmpl tmpl (rsa_PublicKey_of rk) (Some rk) = (Inr der, w3)"
    "ParseAuthorityDER L der (Some k1)
       (s\<lparr>world := w3,
           certificates := certificates s @
             [\<lparr>certificate_privateKey = Some k1, certificate_cert = tmpl,
               certificate_der = der\<rparr>],
           authorities := authorities s @ [\<lparr>authority_c = length (certificates s)\<rparr>]\<rparr>)
     = (Inr a, s')"
  using assms
  by (auto simp: NewAuthority_def new_certificate_def new_authority_def authority_Reload_def
        get_authority_def get_certificate_def
        split: prod.splits sum.splits option.splits)

lemma ParseAuthorityDER_success:
  assumes "ParseAuthorityDER L der k s = (Inr a, s')"
  obtains pc where
    "x509_ParseCertificate L der = Inr pc"
    "a = length (authorities s)"
    "s' = s\<lparr>certificates := certificates s @
                 [\<lparr>certificate_privateKey = k, certificate_cert = pc, certificate_der = der\<rparr>],
              authorities := authorities s @ [\<lparr>authority_c = length (certificates s)\<rparr>]\<rparr>"
  using assms
  by (auto simp: ParseAuthorityDER_def parseCertificateDER_def new_certificate_def
        new_authority_def split: prod.splits sum.splits)

text \<open>
  What the parsing constructors keep: the certificate object that \<^verbatim>\<open>parseCertificateDER\<close>
  allocates holds the bytes it was given and the parse of those bytes; and
  \<^verbatim>\<open>ParseKeyPEM\<close> turns away a block of any type but "RSA PRIVATE KEY".
\<close>

lemma parseCertificateDER_consistent:
  assumes "parseCertificateDER L data k s = (Inr c, s')"
  shows "\<exists>cobj. get_certificate c s' = Some cobj \<and> certificate_der cobj = data \<and>
           certificate_privateKey cobj = k \<and>
           x509_ParseCertificate L data = Inr (certificate_cert cobj)"
  using assms
  by (auto simp: parseCertificateDER_def new_certificate_def get_certificate_def
        split: sum.splits)

lemma ParseKeyPEM_rejects_other_type:
  assumes "decodePEMData L data = Inr block"
    and "pem_Type block \<noteq> ''RSA PRIVATE KEY''"
  shows "ParseKeyPEM L data =
           Inl (fmt_Errorf ''PEM block is not of type RSA PRIVATE KEY: %q'' (pem_Type block))"
  using assms by (simp add: ParseKeyPEM_def)

section \<open>A text block under another tag\<close>

text \<open>
  Claim C1. The claim asks that a block whose type is not the expected one is turned
  away by both parsers. \<^verbatim>\<open>ParseKeyPEM\<close> does so. \<^verbatim>\<open>parseCertificatePEM\<close> does not:
  whenever the text decodes to a block of a type other than "CERTIFICATE" and the
  block's bytes parse as a certificate, \<^verbatim>\<open>ParseCertificatePEM\<close> returns a certificate
  holding those bytes, and no error; so does \<^verbatim>\<open>ParseAuthorityPEM\<close>.
\<close>

theorem parseCertificatePEM_accepts_other_type:
  assumes "decodePEMData L data = Inr block"
    and "pem_Type block \<noteq> ''CERTIFICATE''"
    and "x509_ParseCertificate L (pem_Bytes block) = Inr cert"
  shows "(\<exists>c s'. ParseCertificatePEM L data k s = (Inr c, s') \<and>
            get_certificate c s' =
              Some \<lparr>certificate_privateKey = k, certificate_cert = cert,
                    certificate_der = pem_Bytes block\<rparr>) \<and>
         (\<exists>a s'. ParseAuthorityPEM L data k s = (Inr a, s'))"
  using assms
  by (simp add: ParseCertificatePEM_def ParseAuthorityPEM_def parseCertificatePEM_def
        parseCertificateDER_def new_certificate_def new_authority_def get_certificate_def)

theorem parseCertificatePEM_accepts_other_type_witness:
  "decodePEMData toyL (82 # toy_leaf_der) =
     Inr \<lparr>pem_Type = ''RSA PRIVATE KEY'', pem_Headers = [], pem_Bytes = toy_leaf_der\<rparr> \<and>
   x509_ParseCertificate toyL toy_leaf_der = Inr toy_leaf_cert \<and>
   (\<exists>c s'. ParseCertificatePEM toyL (82 # toy_leaf_der) None toy_s0 = (Inr c, s') \<and>
      get_certificate c s' =
        Some \<lparr>certificate_privateKey = None, certificate_cert = toy_leaf_cert,
              certificate_der = toy_leaf_der\<rparr>) \<and>
   (\<exists>a s'. ParseAuthorityPEM toyL (82 # toy_leaf_der) None toy_s0 = (Inr a, s'))"
  using parseCertificatePEM_accepts_other_type
          [of toyL "82 # toy_leaf_der"
              "\<lparr>pem_Type = ''RSA PRIVATE KEY'', pem_Headers = [], pem_Bytes = toy_leaf_der\<rparr>"
              toy_leaf_cert None toy_s0]
        toy_decode_key_tagged toy_parse_leaf
  by simp

section \<open>The parsed form kept beside the binary form\<close>

text \<open>
  Claim C2. The claim asks that the parsed certificate stored in a Certificate is the
  parse of its stored bytes, for the result of \<^verbatim>\<open>NewCert\<close> in particular. \<^verbatim>\<open>NewCert\<close>
  stores the template it signed: its \<open>Raw\<close> field is empty, so it differs from every
  parse of the stored bytes that records the bytes it was parsed from.
\<close>

theorem NewCert_stores_template:
  assumes "authority_NewCert L a k opt s = (Inr c, s')"
    and "get_certificate c s' = Some cobj"
    and "x509_ParseCertificate L (certificate_der cobj) = Inr pc"
    and "Raw pc \<noteq> []"
  shows "Raw (certificate_cert cobj) = [] \<and> certificate_cert cobj \<noteq> pc"
proof -
  from assms(1) obtain k1 w1 tmpl w2 der w3 where
    t: "newServerCertificate L opt w1 = (Inr tmpl, w2)" and
    c: "c = length (certificates s)" and
    s': "s' = s\<lparr>world := w3,
                  certificates := certificates s @
                    [\<lparr>certificate_privateKey = Some k1, certificate_cert = tmpl,
                      certificate_der = der\<rparr>]\<rparr>"
    by (rule NewCert_success)
  from assms(2) c s' have "certificate_cert cobj = tmpl"
    by (auto simp: get_certificate_def)
  with newServerCertificate_template [OF t] assms(4) show ?thesis by auto
qed

theorem NewCert_stores_template_witness:
  "authority_NewCert toyL 1 None leaf_opts toy_s1 = (Inr 2, toy_s2) \<and>
   get_certificate 2 toy_s2 =
     Some \<lparr>certificate_privateKey = Some toy_pk, certificate_cert = toy_leaf_template,
           certificate_der = toy_leaf_der\<rparr> \<and>
   x509_ParseCertificate toyL toy_leaf_der = Inr toy_leaf_cert \<and>
   Raw toy_leaf_cert \<noteq> [] \<and>
   toy_leaf_template \<noteq> toy_leaf_cert"
proof -
  have g: "get_certificate 2 toy_s2 =
     Some \<lparr>certificate_privateKey = Some toy_pk, certificate_cert = toy_leaf_template,
           certificate_der = toy_leaf_der\<rparr>"
    by (simp add: get_certificate_def toy_s2_def)
  have p: "x509_ParseCertificate toyL
             (certificate_der \<lparr>certificate_privateKey = Some toy_pk,
                certificate_cert = toy_leaf_template, certificate_der = toy_leaf_der\<rparr>) =
           Inr toy_leaf_cert"
    by (simp add: toy_parse_leaf)
  have r: "Raw toy_leaf_cert \<noteq> []"
    by (simp add: toy_leaf_cert_def toy_leaf_der_def)
  from NewCert_stores_template [OF toy_NewCert g p r] toy_NewCert g r toy_parse_leaf
  show ?thesis by simp
qed

section \<open>Issuer and signature of a leaf\<close>

text \<open>
  Claim C3. When \<^verbatim>\<open>a.NewCert(k, o)\<close> returns a Certificate, the authority has a
  certificate and an RSA key, the returned bytes parse, the parsed issuer is the
  subject of the authority's certificate, and the signature verifies under the public
  half of the authority's key. The library's part is \<open>CreateCertificate_contract\<close>.
\<close>

theorem NewCert_issuer_and_signature:
  assumes "CreateCertificate_contract L"
    and "authority_NewCert L a k opt s = (Inr c, s')"
  shows "\<exists>aobj ac ak rk cobj pc.
           get_authority a s = Some aobj \<and>
           get_certificate (authority_c aobj) s = Some ac \<and>
           certificate_privateKey ac = Some ak \<and>
           PrivateKey_privateKey ak = Some rk \<and>
           get_certificate c s' = Some cobj \<and>
           x509_ParseCertificate L (certificate_der cobj) = Inr pc \<and>
           Issuer pc = Subject (certificate_cert ac) \<and>
           x509_CheckSignature L (rsa_PublicKey_of rk) pc"
proof -
  from assms(2) obtain k1 w1 tmpl w2 aobj ac rk0 ak der w3 where
    "key_or_new L k (world s) = (Inr k1, w1)"
    "newServerCertificate L opt w1 = (Inr tmpl, w2)" and
    a: "get_authority a s = Some aobj" "get_certificate (authority_c aobj) s = Some ac" and
    "PrivateKey_privateKey k1 = Some rk0" and
    ak: "certificate_privateKey ac = Some ak" and
    sign: "x509_CreateCertificate L w2 tmpl (certificate_cert ac) (rsa_PublicKey_of rk0)
             (PrivateKey_privateKey ak) = (Inr der, w3)" and
    c: "c = length (certificates s)" and
    s': "s' = s\<lparr>world := w3,
                  certificates := certificates s @
                    [\<lparr>certificate_privateKey = Some k1, certificate_cert = tmpl,
                      certificate_der = der\<rparr>]\<rparr>"
    by (rule NewCert_success)
  from assms(1) sign obtain rk pc where
    p: "PrivateKey_privateKey ak = Some rk" "x509_ParseCertificate L der = Inr pc"
       "Issuer pc = Subject (certificate_cert ac)"
       "x509_CheckSignature L (rsa_PublicKey_of rk) pc"
    unfolding CreateCertificate_contract_def by blast
  have "get_certificate c s' =
          Some \<lparr>certificate_privateKey = Some k1, certificate_cert = tmpl, certificate_der = der\<rparr>"
    using c s' by (simp add: get_certificate_def)
  with a ak p show ?thesis by simp
qed

theorem NewCert_issuer_and_signature_witness:
  "CreateCertificate_contract toyL \<and>
   authority_NewCert toyL 1 None leaf_opts toy_s1 = (Inr 2, toy_s2) \<and>
   get_authority 1 toy_s1 = Some \<lparr>authority_c = 1\<rparr> \<and>
   get_certificate 1 toy_s1 =
     Some \<lparr>certificate_privateKey = Some toy_pk, certificate_cert = toy_root_cert,
           certificate_der = toy_root_der\<rparr> \<and>
   get_certificate 2 toy_s2 =
     Some \<lparr>certificate_privateKey = Some toy_pk, certificate_cert = toy_leaf_template,
           certificate_der = toy_leaf_der\<rparr> \<and>
   x509_ParseCertificate toyL toy_leaf_der = Inr toy_leaf_cert \<and>
   Issuer toy_leaf_cert = Subject toy_root_cert \<and>
   x509_CheckSignature toyL (rsa_PublicKey_of toy_key) toy_leaf_cert"
  using NewCert_issuer_and_signature [OF toy_CreateCertificate_contract toy_NewCert]
    toy_CreateCertificate_contract toy_NewCert toy_parse_leaf
  by (simp add: get_authority_def get_certificate_def toy_s1_def toy_s2_def toy_pk_def)

section \<open>The text form of a public key\<close>

text \<open>
  Claim C4. \<^verbatim>\<open>PublicKey.GetPEM\<close> hands the wrapped \<^verbatim>\<open>*rsa.PrivateKey\<close> itself to
  \<^verbatim>\<open>x509.MarshalPKIXPublicKey\<close>. The marshaller rejects a private key, so for every
  private key \<open>k\<close> the call \<^verbatim>\<open>k.Public().GetPEM()\<close> returns the marshaller's error and no
  bytes.
\<close>

theorem PublicKey_GetPEM_always_fails:
  assumes "MarshalPKIXPublicKey_rejects_private L"
  shows "\<exists>err. x509_MarshalPKIXPublicKey L (any_rsa_PrivateKey (PrivateKey_privateKey k)) = Inl err \<and>
           PublicKey_GetPEM L (PrivateKey_Public k) = ([], Some err)"
proof -
  from assms obtain err where
    "x509_MarshalPKIXPublicKey L (any_rsa_PrivateKey (PrivateKey_privateKey k)) = Inl err"
    unfolding MarshalPKIXPublicKey_rejects_private_def by blast
  then show ?thesis
    by (simp add: PublicKey_GetPEM_def PrivateKey_Public_def)
qed

theorem PublicKey_GetPEM_always_fails_witness:
  "MarshalPKIXPublicKey_rejects_private toyL \<and>
   PublicKey_GetPEM toyL (PrivateKey_Public \<lparr>PrivateKey_privateKey = Some toy_key\<rparr>) =
     ([], Some (library_error ''x509: unsupported public key type: *rsa.PrivateKey''))"
  using PublicKey_GetPEM_always_fails
          [OF toy_rejects_private, of "\<lparr>PrivateKey_privateKey = Some toy_key\<rparr>"]
    toy_rejects_private
  by (simp add: toy_MarshalPKIXPublicKey_def)

section \<open>A new authority is a reloaded authority\<close>



lemma NewAuthority_holds_parsed:
  assumes "NewAuthority L k opt s = (Inr a, s1)"
  obtains k1 der pc aobj where
    "x509_ParseCertificate L der = Inr pc"
    "get_authority a s1 = Some aobj"
    "get_certificate (authority_c aobj) s1 =
       Some \<lparr>certificate_privateKey = Some k1, certificate_cert = pc, certificate_der = der\<rparr>"
proof -
  from assms obtain k1 w1 tmpl w2 rk der w3 where
    reload: "ParseAuthorityDER L der (Some k1)
       (s\<lparr>world := w3,
           certificates := certificates s @
             [\<lparr>certificate_privateKey = Some k1, certificate_cert = tmpl,
               certificate_der = der\<rparr>],
           authorities := authorities s @ [\<lparr>authority_c = length (certificates s)\<rparr>]\<rparr>)
     = (Inr a, s1)"
    by (rule NewAuthority_success)
  from reload obtain pc where
    pc: "x509_ParseCertificate L der = Inr pc" and
    a: "a = Suc (length (authorities s))" and
    s1: "s1 = s\<lparr>world := w3,
             certificates := certificates s @
               [\<lparr>certificate_privateKey = Some k1, certificate_cert = tmpl,
                 certificate_der = der\<rparr>,
                \<lparr>certificate_privateKey = Some k1, certificate_cert = pc,
                 certificate_der = der\<rparr>],
             authorities := authorities s @
               [\<lparr>authority_c = length (certificates s)\<rparr>,
                \<lparr>authority_c = Suc (length (certificates s))\<rparr>]\<rparr>"
    by (rule ParseAuthorityDER_success) simp
  have "get_authority a s1 = Some \<lparr>authority_c = Suc (length (certificates s))\<rparr>"
    using a s1 by (simp add: get_authority_def nth_append)
  moreover have "get_certificate (Suc (length (certificates s))) s1 =
      Some \<lparr>certificate_privateKey = Some k1, certificate_cert = pc, certificate_der = der\<rparr>"
    using s1 by (simp add: get_certificate_def nth_append)
  ultimately show ?thesis using pc that by simp
qed

section \<open>Text form and back\<close>

text \<open>
  Claim C6. Create an Authority with \<^verbatim>\<open>NewAuthority\<close>, encode it with \<^verbatim>\<open>GetPEM\<close> (which
  returns no error), and load the text with \<^verbatim>\<open>ParseAuthorityPEM\<close> and the Authority's own
  key: the load succeeds, and the Authority it returns stores the same DER bytes, and
  the same key, as the original. The library's part is \<open>pem_contract\<close>.
\<close>

theorem Authority_PEM_roundtrip:
  assumes "pem_contract L"
    and "NewAuthority L k opt s = (Inr a, s1)"
    and "authority_GetPEM L a s1 = Inr (pem, None)"
    and "authority_GetKey a s1 = Inr key"
  shows "\<exists>a' s2 aobj cobj aobj' cobj'.
           ParseAuthorityPEM L pem key s1 = (Inr a', s2) \<and>
           get_authority a s1 = Some aobj \<and>
           get_certificate (authority_c aobj) s1 = Some cobj \<and>
           get_authority a' s2 = Some aobj' \<and>
           get_certificate (authority_c aobj') s2 = Some cobj' \<and>
           certificate_der cobj' = certificate_der cobj \<and>
           certificate_privateKey cobj' = certificate_privateKey cobj"
proof -
  from assms(2) obtain k1 der pc aobj where
    pc: "x509_ParseCertificate L der = Inr pc" and
    ga: "get_authority a s1 = Some aobj" and
    gc: "get_certificate (authority_c aobj) s1 =
           Some \<lparr>certificate_privateKey = Some k1, certificate_cert = pc, certificate_der = der\<rparr>"
    by (rule NewAuthority_holds_parsed)
  let ?b = "\<lparr>pem_Type = ''CERTIFICATE'', pem_Headers = [], pem_Bytes = der\<rparr>"
  from assms(3) ga gc have enc: "pem_Encode L ?b = (pem, None)"
    by (simp add: authority_GetPEM_def certificate_GetPEM_def certDERToPEM_def)
  from assms(4) ga gc have key: "key = Some k1"
    by (simp add: authority_GetKey_def certificate_GetKey_def)
  from assms(1) have "pem_Encode L ?b = (pem, None) \<longrightarrow>
      pem \<noteq> [] \<and> fst (pem_Decode L pem) = Some ?b"
    unfolding pem_contract_def by blast
  with enc have dec: "pem \<noteq> []" "fst (pem_Decode L pem) = Some ?b"
    by simp_all
  then have d: "decodePEMData L pem = Inr ?b"
    by (simp add: decodePEMData_def)
  have p: "ParseAuthorityPEM L pem key s1 =
      (Inr (length (authorities s1)),
       s1\<lparr>certificates := certificates s1 @
               [\<lparr>certificate_privateKey = key, certificate_cert = pc, certificate_der = der\<rparr>],
           authorities := authorities s1 @ [\<lparr>authority_c = length (certificates s1)\<rparr>]\<rparr>)"
    using d pc
    by (simp add: ParseAuthorityPEM_def parseCertificatePEM_def parseCertificateDER_def
          new_certificate_def new_authority_def)
  show ?thesis
    using p ga gc key by (simp add: get_authority_def get_certificate_def)
qed

theorem Authority_PEM_roundtrip_witness:
  "pem_contract toyL \<and>
   NewAuthority toyL None root_opts toy_s0 = (Inr 1, toy_s1) \<and>
   authority_GetPEM toyL 1 toy_s1 = Inr (67 # toy_root_der, None) \<and>
   authority_GetKey 1 toy_s1 = Inr (Some toy_pk) \<and>
   (\<exists>a' s2 aobj cobj aobj' cobj'.
      ParseAuthorityPEM toyL (67 # toy_root_der) (Some toy_pk) toy_s1 = (Inr a', s2) \<and>
      get_authority 1 toy_s1 = Some aobj \<and>
      get_certificate (authority_c aobj) toy_s1 = Some cobj \<and>
      get_authority a' s2 = Some aobj' \<and>
      get_certificate (authority_c aobj') s2 = Some cobj' \<and>
      certificate_der cobj' = certificate_der cobj \<and>
      certificate_privateKey cobj' = certificate_privateKey cobj)"
proof -
  have g: "authority_GetPEM toyL 1 toy_s1 = Inr (67 # toy_root_der, None)"
    by (simp add: authority_GetPEM_def certificate_GetPEM_def certDERToPEM_def
          get_authority_def get_certificate_def toy_s1_def toy_pem_Encode_def toy_tag_def)
  have k: "authority_GetKey 1 toy_s1 = Inr (Some toy_pk)"
    by (simp add: authority_GetKey_def certificate_GetKey_def get_authority_def
          get_certificate_def toy_s1_def)
  from Authority_PEM_roundtrip [OF toy_pem_contract toy_NewAuthority g k]
    toy_pem_contract toy_NewAuthority g k
  show ?thesis by simp
qed

section \<open>Unwrapping text: empty input and input without a block\<close>

text \<open>
  Claim C7. \<^verbatim>\<open>decodePEMData\<close> answers zero-length input with the error
  "zero-length PEM block", and only zero-length input; it answers non-empty input in
  which \<^verbatim>\<open>pem.Decode\<close> finds no block with the different error "no PEM block could be
  decoded". Whenever it fails, \<^verbatim>\<open>ParseCertificatePEM\<close>, \<^verbatim>\<open>ParseAuthorityPEM\<close> and
  \<^verbatim>\<open>ParseKeyPEM\<close> return that error and no entity, and the heap is as it was.
\<close>

theorem decodePEMData_failures:
  "decodePEMData L [] = Inl (errors_New ''zero-length PEM block'') \<and>
   (data \<noteq> [] \<and> fst (pem_Decode L data) = None \<longrightarrow>
      decodePEMData L data = Inl (errors_New ''no PEM block could be decoded'')) \<and>
   (decodePEMData L data = Inl (errors_New ''zero-length PEM block'') \<longleftrightarrow> data = []) \<and>
   (decodePEMData L data = Inl e \<longrightarrow>
      ParseCertificatePEM L data k s = (Inl e, s) \<and>
      ParseAuthorityPEM L data k s = (Inl e, s) \<and>
      ParseKeyPEM L data = Inl e)"
  by (auto simp: decodePEMData_def ParseCertificatePEM_def parseCertificatePEM_def
        ParseAuthorityPEM_def ParseKeyPEM_def split: option.splits)

theorem decodePEMData_failures_witness:
  "[0 :: byte] \<noteq> [] \<and> fst (pem_Decode toyL [0]) = None \<and>
   decodePEMData toyL [0] = Inl (errors_New ''no PEM block could be decoded'') \<and>
   ParseCertificatePEM toyL [0] None toy_s0 =
     (Inl (errors_New ''no PEM block could be decoded''), toy_s0) \<and>
   ParseAuthorityPEM toyL [0] None toy_s0 =
     (Inl (errors_New ''no PEM block could be decoded''), toy_s0) \<and>
   ParseKeyPEM toyL [0] = Inl (errors_New ''no PEM block could be decoded'')"
  using decodePEMData_failures
    [of toyL "[0]" "errors_New ''no PEM block could be decoded''" None toy_s0]
  by (simp add: toy_pem_Decode_def)

section \<open>The validity window of a template\<close>



section \<open>Serial numbers\<close>

text \<open>
  Claim C9. \<^verbatim>\<open>newAuthorityCertificate\<close> and \<^verbatim>\<open>newServerCertificate\<close> both take their
  serial number from \<^verbatim>\<open>randomSerialNumber\<close>, which is one \<^verbatim>\<open>rand.Int\<close> draw below
  \<open>1 << 128 = 2 ^ 128\<close>. So a serial number is at least 0 and below \<open>2 ^ 128\<close> (the
  library's part: \<open>rand_Int_contract\<close>), and over any set of equally likely worlds on
  which \<^verbatim>\<open>rand.Int\<close> is uniform below \<open>2 ^ 128\<close> the serial number of either template is
  uniform below \<open>2 ^ 128\<close>.
\<close>

theorem serial_number_policy:
  "template_serial (newAuthorityCertificate L opt w) = fst (randomSerialNumber L w) \<and>
   template_serial (newServerCertificate L opt w) = fst (randomSerialNumber L w) \<and>
   (rand_Int_contract L \<and> fst (randomSerialNumber L w) = Inr sn \<longrightarrow> 0 \<le> sn \<and> sn < 2 ^ 128) \<and>
   (uniform_on \<Omega> (\<lambda>w. fst (rand_Int L w (2 ^ 128))) (2 ^ 128) \<longrightarrow>
      uniform_on \<Omega> (\<lambda>w. template_serial (newAuthorityCertificate L opt w)) (2 ^ 128) \<and>
      uniform_on \<Omega> (\<lambda>w. template_serial (newServerCertificate L opt w)) (2 ^ 128))"
proof -
  have eq: "randomSerialNumber L w = rand_Int L w (2 ^ 128)" for w
    by (simp add: randomSerialNumber_def)
  have ser:
    "template_serial (newAuthorityCertificate L opt w) = fst (randomSerialNumber L w)"
    "template_serial (newServerCertificate L opt w) = fst (randomSerialNumber L w)" for w
    by (auto simp: template_serial_def newAuthorityCertificate_def newServerCertificate_def
          Let_def split: prod.splits sum.splits)
  have "0 \<le> sn \<and> sn < 2 ^ 128"
    if "rand_Int_contract L" "fst (randomSerialNumber L w) = Inr sn"
  proof -
    from that(2) obtain w' where "rand_Int L w (2 ^ 128) = (Inr sn, w')"
      by (cases "rand_Int L w (2 ^ 128)") (simp add: eq)
    with that(1) show ?thesis
      unfolding rand_Int_contract_def by blast
  qed
  then show ?thesis
    by (simp add: ser eq)
qed

theorem serial_number_policy_witness:
  "rand_Int_contract toyL \<and>
   fst (randomSerialNumber toyL \<lparr>toy_seed = 8, toy_clock = 100\<rparr>) = Inr 8 \<and>
   (0 :: int) \<le> 8 \<and> (8 :: int) < 2 ^ 128 \<and>
   template_serial (newAuthorityCertificate toyL root_opts \<lparr>toy_seed = 8, toy_clock = 100\<rparr>) =
     Inr 8 \<and>
   uniform_on toy_worlds (\<lambda>w. fst (rand_Int toyL w (2 ^ 128))) (2 ^ 128) \<and>
   uniform_on toy_worlds (\<lambda>w. template_serial (newAuthorityCertificate toyL root_opts w))
     (2 ^ 128) \<and>
   uniform_on toy_worlds (\<lambda>w. template_serial (newServerCertificate toyL leaf_opts w))
     (2 ^ 128)"
proof -
  have d: "fst (randomSerialNumber toyL \<lparr>toy_seed = 8, toy_clock = 100\<rparr>) = Inr 8"
    by (simp add: randomSerialNumber_def toy_rand_Int_def)
  from serial_number_policy
         [of toyL root_opts "\<lparr>toy_seed = 8, toy_clock = 100\<rparr>" 8 toy_worlds]
       serial_number_policy
         [of toyL leaf_opts "\<lparr>toy_seed = 8, toy_clock = 100\<rparr>" 8 toy_worlds]
       toy_rand_Int_contract toy_uniform d
  show ?thesis by simp
qed

section \<open>Issuing leaves the authority as it was\<close>

text \<open>
  Claim C10. Whatever \<^verbatim>\<open>a.NewCert(k, o)\<close> returns, the heap afterwards holds the same
  authority objects, every certificate object allocated before the call is unchanged,
  and so the authority \<open>a\<close> and the certificate object it points to (parsed
  certificate, DER bytes and private key) read the same before and after. An
  authority object has the one field \<open>c\<close>, so nothing about the issued certificate is
  recorded in it.
\<close>

theorem NewCert_leaves_authority_unchanged:
  assumes "authority_NewCert L a k opt s = (r, s')"
  shows "authorities s' = authorities s \<and>
         take (length (certificates s)) (certificates s') = certificates s \<and>
         get_authority a s' = get_authority a s \<and>
         (\<forall>aobj. get_authority a s = Some aobj \<longrightarrow>
            get_certificate (authority_c aobj) s' = get_certificate (authority_c aobj) s)"
  using assms
  by (auto simp: authority_NewCert_def new_certificate_def get_authority_def get_certificate_def
        nth_append split: prod.splits sum.splits option.splits if_splits)

theorem NewCert_leaves_authority_unchanged_witness:
  "authority_NewCert toyL 1 None leaf_opts toy_s1 = (Inr 2, toy_s2) \<and>
   authorities toy_s2 = authorities toy_s1 \<and>
   take (length (certificates toy_s1)) (certificates toy_s2) = certificates toy_s1 \<and>
   get_authority 1 toy_s2 = get_authority 1 toy_s1 \<and>
   get_authority 1 toy_s1 = Some \<lparr>authority_c = 1\<rparr> \<and>
   get_certificate 1 toy_s2 = get_certificate 1 toy_s1"
  using NewCert_leaves_authority_unchanged [OF toy_NewCert] toy_NewCert
  by (simp add: get_authority_def toy_s1_def)

end
